theory Spec2Isabelle
  imports Complex_Main "HOL-Library.Multiset" "HOL-Library.Char_ord"
    "HOL-Library.List_Lexorder" "HOL-Library.Product_Lexorder"
begin

section \<open>Aadhaar Enrolment Intelligence System: the analysis core\<close>

text \<open>
  A shallow embedding of the Python backend: \<^verbatim>\<open>config.py\<close>, \<^verbatim>\<open>data_loader.py\<close>,
  \<^verbatim>\<open>preprocessing.py\<close>, \<^verbatim>\<open>analysis.py\<close> and \<^verbatim>\<open>anomaly_model.py\<close>.

  Conventions of the model.
  \<^item> A DataFrame is the list of its rows, in row order; a row is a record with one field
    per column. \<^verbatim>\<open>df.copy()\<close> and boolean indexing build new frames and no function of
    the source assigns into its argument, so every function is a function from lists to
    values.
  \<^item> An integer column (int64) is modelled by \<open>int\<close>: counts are assumed to stay far
    inside the 64-bit range, so that no sum wraps.
  \<^item> A float64 is modelled by \<open>flt\<close>: a real number (no rounding), or one of the special
    values NaN, +inf, -inf, with the IEEE rules for the special cases of division and
    multiplication. Signed zeros are not distinguished.
  \<^item> A \<^verbatim>\<open>datetime64[ns]\<close> value is its number of nanoseconds since the epoch.
  \<^item> What pandas does and the source does not contain (parsing a date text, the calendar
    fields of a timestamp, the order \<^verbatim>\<open>sort_values\<close> gives to rows with equal keys) is a
    parameter of the function that calls it.
  \<^item> A raised exception is the \<open>Inl\<close> branch of the result.
\<close>

subsection \<open>Exceptions\<close>

text \<open>
  \<open>MissingColumns\<close> is the ValueError of \<^verbatim>\<open>validate_columns\<close>, with the set of
  column names its message lists; \<open>ParserError\<close> is what \<^verbatim>\<open>pd.to_datetime\<close> raises on a
  text it cannot read.
\<close>

datatype py_error =
    ValueError string
  | MissingColumns "string set"
  | FileNotFoundError string
  | IndexError
  | ParserError string

subsection \<open>Floating-point values\<close>

datatype flt = NaN | PInf | NInf | Fin real

fun fneg :: "flt \<Rightarrow> flt" where
  "fneg NaN = NaN"
| "fneg PInf = NInf"
| "fneg NInf = PInf"
| "fneg (Fin a) = Fin (- a)"

fun fabs :: "flt \<Rightarrow> flt" where
  "fabs NaN = NaN"
| "fabs PInf = PInf"
| "fabs NInf = PInf"
| "fabs (Fin a) = Fin \<bar>a\<bar>"

fun fsub :: "flt \<Rightarrow> flt \<Rightarrow> flt" where
  "fsub (Fin a) (Fin b) = Fin (a - b)"
| "fsub NaN _ = NaN"
| "fsub _ NaN = NaN"
| "fsub PInf PInf = NaN"
| "fsub NInf NInf = NaN"
| "fsub PInf _ = PInf"
| "fsub NInf _ = NInf"
| "fsub (Fin a) PInf = NInf"
| "fsub (Fin a) NInf = PInf"

text \<open>The sign of a product or quotient with an infinite operand.\<close>

definition signed_inf :: "bool \<Rightarrow> flt" where
  "signed_inf positive = (if positive then PInf else NInf)"

fun fmul :: "flt \<Rightarrow> flt \<Rightarrow> flt" where
  "fmul (Fin a) (Fin b) = Fin (a * b)"
| "fmul NaN _ = NaN"
| "fmul _ NaN = NaN"
| "fmul PInf (Fin b) = (if b = 0 then NaN else signed_inf (0 < b))"
| "fmul NInf (Fin b) = (if b = 0 then NaN else signed_inf (b < 0))"
| "fmul (Fin a) PInf = (if a = 0 then NaN else signed_inf (0 < a))"
| "fmul (Fin a) NInf = (if a = 0 then NaN else signed_inf (a < 0))"
| "fmul PInf PInf = PInf"
| "fmul NInf NInf = PInf"
| "fmul PInf NInf = NInf"
| "fmul NInf PInf = NInf"

text \<open>
  numpy's float division: \<open>0 / 0\<close> is NaN and \<open>x / 0\<close> is an infinity with the sign of
  \<open>x\<close>; no exception is raised.
\<close>

fun fdiv :: "flt \<Rightarrow> flt \<Rightarrow> flt" where
  "fdiv (Fin a) (Fin b) =
     (if b = 0 then (if a = 0 then NaN else signed_inf (0 < a)) else Fin (a / b))"
| "fdiv NaN _ = NaN"
| "fdiv _ NaN = NaN"
| "fdiv (Fin a) PInf = Fin 0"
| "fdiv (Fin a) NInf = Fin 0"
| "fdiv PInf (Fin b) = signed_inf (0 \<le> b)"
| "fdiv NInf (Fin b) = signed_inf (b < 0)"
| "fdiv PInf _ = NaN"
| "fdiv NInf _ = NaN"

text \<open>Comparisons: every comparison with NaN is false.\<close>

fun flt_gt :: "flt \<Rightarrow> flt \<Rightarrow> bool" where
  "flt_gt NaN _ = False"
| "flt_gt _ NaN = False"
| "flt_gt (Fin a) (Fin b) = (a > b)"
| "flt_gt PInf PInf = False"
| "flt_gt PInf _ = True"
| "flt_gt NInf _ = False"
| "flt_gt (Fin a) PInf = False"
| "flt_gt (Fin a) NInf = True"

definition flt_lt :: "flt \<Rightarrow> flt \<Rightarrow> bool" where
  "flt_lt x y = flt_gt y x"


subsection \<open>Series statistics\<close>

text \<open>
  \<^verbatim>\<open>Series.mean()\<close>, \<^verbatim>\<open>Series.std()\<close> (sample standard deviation, \<open>ddof = 1\<close>) and
  \<^verbatim>\<open>Series.median()\<close> of an integer series. The mean and the median of an empty series
  and the standard deviation of a series of fewer than two values are NaN.
\<close>

definition mean_real :: "int list \<Rightarrow> real" where
  "mean_real xs = real_of_int (sum_list xs) / real (length xs)"

definition series_mean :: "int list \<Rightarrow> flt" where
  "series_mean xs = (if xs = [] then NaN else Fin (mean_real xs))"

definition sq_dev :: "int list \<Rightarrow> real" where
  "sq_dev xs = (\<Sum>x\<leftarrow>xs. (real_of_int x - mean_real xs)\<^sup>2)"

definition series_std :: "int list \<Rightarrow> flt" where
  "series_std xs =
     (if length xs < 2 then NaN else Fin (sqrt (sq_dev xs / real (length xs - 1))))"

definition series_median :: "int list \<Rightarrow> flt" where
  "series_median xs =
     (let s = sort xs; n = length xs in
      if n = 0 then NaN
      else if odd n then Fin (real_of_int (s ! (n div 2)))
      else Fin (real_of_int (s ! (n div 2 - 1) + s ! (n div 2)) / 2))"

text \<open>
  \<^verbatim>\<open>Series.min()\<close> and \<^verbatim>\<open>Series.max()\<close>: the extremum, or NaN (NaT for timestamps) for
  an empty series, here \<open>None\<close>.
\<close>

definition series_min :: "int list \<Rightarrow> int option" where
  "series_min xs = (if xs = [] then None else Some (Min (set xs)))"

definition series_max :: "int list \<Rightarrow> int option" where
  "series_max xs = (if xs = [] then None else Some (Max (set xs)))"

text \<open>Python's \<^verbatim>\<open>int(x)\<close> of such a result: \<^verbatim>\<open>int(nan)\<close> raises ValueError.\<close>

definition py_int_of :: "int option \<Rightarrow> py_error + int" where
  "py_int_of v =
     (case v of None \<Rightarrow> Inl (ValueError ''cannot convert float NaN to integer'')
      | Some i \<Rightarrow> Inr i)"

subsection \<open>The data model\<close>

type_synonym timestamp = int

text \<open>
  A cell of the raw \<^verbatim>\<open>date\<close> column: a text read from the CSV file, a missing value,
  or a timestamp (when the column has been parsed already).
\<close>

datatype date_cell = DateText string | DateStamp timestamp | DateMissing

text \<open>The required columns; \<open>'d\<close> is the type of the \<^verbatim>\<open>date\<close> column.\<close>

record 'd enrolment =
  date :: 'd
  state :: string
  district :: string
  pincode :: int
  age_0_5 :: int
  age_5_17 :: int
  age_18_greater :: int

text \<open>A row of a preprocessed table: the date is parsed and the derived columns exist.\<close>

record row = "timestamp enrolment" +
  total_enrolments :: int
  year :: int
  month :: int
  month_name :: string
  day :: int
  day_of_week :: string
  week_of_year :: int

text \<open>The calendar fields pandas' \<^verbatim>\<open>.dt\<close> accessor reads off a timestamp.\<close>

record calendar =
  dt_year :: int
  dt_month :: int
  dt_month_name :: string
  dt_day :: int
  dt_day_name :: string
  dt_week :: int

subsection \<open>pandas operations\<close>

text \<open>
  \<^verbatim>\<open>df.groupby(key)[col].sum()\<close>: one entry per distinct key, keys ascending
  (\<^verbatim>\<open>sort=True\<close> is the default), the column summed over the rows of the key.
\<close>

definition group_keys :: "('r \<Rightarrow> 'k::linorder) \<Rightarrow> 'r list \<Rightarrow> 'k list" where
  "group_keys key df = sort (remdups (map key df))"

definition groupby_sum :: "('r \<Rightarrow> 'k::linorder) \<Rightarrow> ('r \<Rightarrow> int) \<Rightarrow> 'r list \<Rightarrow> ('k \<times> int) list" where
  "groupby_sum key col df =
     map (\<lambda>k. (k, sum_list (map col (filter (\<lambda>r. key r = k) df)))) (group_keys key df)"

text \<open>\<^verbatim>\<open>groupby(key)[col].nunique()\<close> for one key.\<close>

definition nunique_in :: "('r \<Rightarrow> 'k) \<Rightarrow> ('r \<Rightarrow> 'v) \<Rightarrow> 'r list \<Rightarrow> 'k \<Rightarrow> nat" where
  "nunique_in key col df k = length (remdups (map col (filter (\<lambda>r. key r = k) df)))"

text \<open>
  \<^verbatim>\<open>sort_values(key)\<close> is called with its default algorithm, \<^verbatim>\<open>kind='quicksort'\<close>, which
  pandas documents as not stable. What the callers may rely on is that the result holds
  the same rows and that its keys ascend; where rows with equal keys end up is not
  determined by the source. The sorting function is therefore a parameter \<open>srt\<close>, and
  \<open>sort_values_ok key srt\<close> is what is known of it.
\<close>

definition sort_values_ok :: "('r \<Rightarrow> 'k::linorder) \<Rightarrow> ('r list \<Rightarrow> 'r list) \<Rightarrow> bool" where
  "sort_values_ok key srt \<longleftrightarrow> (\<forall>xs. mset (srt xs) = mset xs \<and> sorted (map key (srt xs)))"

subsection \<open>config.py and data_loader.py\<close>

definition REQUIRED_COLUMNS :: "string list" where
  "REQUIRED_COLUMNS =
     [''date'', ''state'', ''district'', ''pincode'',
      ''age_0_5'', ''age_5_17'', ''age_18_greater'']"

text \<open>\<^verbatim>\<open>validate_columns(df)\<close> reads only \<^verbatim>\<open>df.columns\<close>.\<close>

definition validate_columns :: "string list \<Rightarrow> py_error + bool" where
  "validate_columns columns =
     (let missing_cols = set REQUIRED_COLUMNS - set columns in
      if missing_cols \<noteq> {} then Inl (MissingColumns missing_cols) else Inr True)"

text \<open>
  \<^verbatim>\<open>load_data(file_path)\<close>. The file system is a map from paths to the frame that
  \<^verbatim>\<open>pd.read_csv\<close> returns for the file, as its column names and its body.
\<close>

definition load_data :: "(string \<rightharpoonup> string list \<times> 'b) \<Rightarrow> string \<Rightarrow> py_error + string list \<times> 'b" where
  "load_data fs file_path =
     (case fs file_path of
        None \<Rightarrow> Inl (FileNotFoundError file_path)
      | Some df \<Rightarrow>
          (case validate_columns (fst df) of
             Inl e \<Rightarrow> Inl e
           | Inr _ \<Rightarrow> Inr df))"

subsection \<open>preprocessing.py\<close>

text \<open>
  \<^verbatim>\<open>pd.to_datetime(col, format='%d-%m-%Y', errors='coerce')\<close> on one cell. A text is
  parsed by pandas (\<open>strp\<close>, \<open>None\<close> when the text does not match the format); a
  timestamp is returned as it is; a missing value stays missing.
\<close>

fun to_datetime_dmy :: "(string \<Rightarrow> timestamp option) \<Rightarrow> date_cell \<Rightarrow> timestamp option" where
  "to_datetime_dmy strp (DateText s) = strp s"
| "to_datetime_dmy strp (DateStamp t) = Some t"
| "to_datetime_dmy strp DateMissing = None"

definition set_date :: "'e \<Rightarrow> 'd enrolment \<Rightarrow> 'e enrolment" where
  "set_date t r =
     \<lparr>date = t, state = state r, district = district r, pincode = pincode r,
      age_0_5 = age_0_5 r, age_5_17 = age_5_17 r, age_18_greater = age_18_greater r\<rparr>"

text \<open>\<^verbatim>\<open>parse_dates\<close>: parse the column, then drop the rows whose date is NaT.\<close>

definition parse_dates ::
  "(string \<Rightarrow> timestamp option) \<Rightarrow> date_cell enrolment list \<Rightarrow> timestamp enrolment list" where
  "parse_dates strp df =
     List.map_filter
       (\<lambda>r. case to_datetime_dmy strp (date r) of None \<Rightarrow> None | Some t \<Rightarrow> Some (set_date t r))
       df"

text \<open>\<^verbatim>\<open>add_derived_columns\<close>, on one row and on the frame.\<close>

definition derive_row :: "(timestamp \<Rightarrow> calendar) \<Rightarrow> timestamp enrolment \<Rightarrow> row" where
  "derive_row dt r =
     enrolment.extend r
       (row.fields (age_0_5 r + age_5_17 r + age_18_greater r)
          (dt_year (dt (date r))) (dt_month (dt (date r))) (dt_month_name (dt (date r)))
          (dt_day (dt (date r))) (dt_day_name (dt (date r))) (dt_week (dt (date r))))"

definition add_derived_columns :: "(timestamp \<Rightarrow> calendar) \<Rightarrow> timestamp enrolment list \<Rightarrow> row list" where
  "add_derived_columns dt df = map (derive_row dt) df"

text \<open>
  \<^verbatim>\<open>preprocess_data\<close>: \<^verbatim>\<open>reset_index(drop=True)\<close> renumbers the rows, which are
  numbered by their position here.
\<close>

definition preprocess_data ::
  "(string \<Rightarrow> timestamp option) \<Rightarrow> (timestamp \<Rightarrow> calendar) \<Rightarrow> (row list \<Rightarrow> row list) \<Rightarrow>
   date_cell enrolment list \<Rightarrow> row list" where
  "preprocess_data strp dt srt df = srt (add_derived_columns dt (parse_dates strp df))"


text \<open>\<^verbatim>\<open>filter_by_age_group\<close>; \<open>None\<close> is Python's \<^verbatim>\<open>None\<close>.\<close>

definition filter_by_age_group :: "'r list \<Rightarrow> string list option \<Rightarrow> 'r list" where
  "filter_by_age_group df age_groups =
     (let valid_groups = [''age_0_5'', ''age_5_17'', ''age_18_greater''] in
      case age_groups of
        None \<Rightarrow> df
      | Some ags \<Rightarrow>
          if ags = [] then df
          else (let ags' = filter (\<lambda>ag. ag \<in> set valid_groups) ags in df))"

text \<open>
  A date bound of \<^verbatim>\<open>filter_by_date_range\<close>: \<^verbatim>\<open>None\<close>, a text or a timestamp. The
  test \<^verbatim>\<open>if start_date:\<close> is Python's truth value: \<^verbatim>\<open>None\<close> and the empty text are
  false. A text is parsed by \<^verbatim>\<open>pd.to_datetime\<close> (\<open>to_datetime\<close>), which raises on a
  text it cannot read and may return NaT (\<open>None\<close>), with which every comparison is
  false.
\<close>

datatype date_arg = NoDate | DateStr string | DateVal timestamp

fun truthy :: "date_arg \<Rightarrow> bool" where
  "truthy NoDate = False"
| "truthy (DateStr s) = (s \<noteq> [])"
| "truthy (DateVal t) = True"

fun coerce_date :: "(string \<Rightarrow> py_error + timestamp option) \<Rightarrow> date_arg \<Rightarrow> py_error + timestamp option" where
  "coerce_date to_datetime (DateStr s) = to_datetime s"
| "coerce_date to_datetime (DateVal t) = Inr (Some t)"
| "coerce_date to_datetime NoDate = Inr None"

definition date_ge :: "timestamp \<Rightarrow> timestamp option \<Rightarrow> bool" where
  "date_ge d b = (case b of None \<Rightarrow> False | Some t \<Rightarrow> t \<le> d)"

definition date_le :: "timestamp \<Rightarrow> timestamp option \<Rightarrow> bool" where
  "date_le d b = (case b of None \<Rightarrow> False | Some t \<Rightarrow> d \<le> t)"

definition filter_by_date_range ::
  "(string \<Rightarrow> py_error + timestamp option) \<Rightarrow> row list \<Rightarrow> date_arg \<Rightarrow> date_arg \<Rightarrow> py_error + row list" where
  "filter_by_date_range to_datetime df start_date end_date =
     (case (if truthy start_date
            then (case coerce_date to_datetime start_date of
                    Inl e \<Rightarrow> Inl e
                  | Inr s \<Rightarrow> Inr (filter (\<lambda>r. date_ge (date r) s) df))
            else Inr df) of
        Inl e \<Rightarrow> Inl e
      | Inr df1 \<Rightarrow>
          if truthy end_date
          then (case coerce_date to_datetime end_date of
                  Inl e \<Rightarrow> Inl e
                | Inr t \<Rightarrow> Inr (filter (\<lambda>r. date_le (date r) t) df1))
          else Inr df1)"

text \<open>
  The pincodes of \<^verbatim>\<open>filter_by_pincode\<close>: one value or a collection of values, each
  an integer or a text. \<^verbatim>\<open>int(p)\<close> of a text is Python's (\<open>py_int\<close>, \<open>None\<close> when
  it raises ValueError).
\<close>

datatype pin = PinInt int | PinStr string

datatype pin_arg = OnePin pin | ManyPins "pin list"

fun int_of_pin :: "(string \<Rightarrow> int option) \<Rightarrow> pin \<Rightarrow> py_error + int" where
  "int_of_pin py_int (PinInt i) = Inr i"
| "int_of_pin py_int (PinStr s) =
     (case py_int s of None \<Rightarrow> Inl (ValueError ''invalid literal for int()'') | Some i \<Rightarrow> Inr i)"

fun int_of_pins :: "(string \<Rightarrow> int option) \<Rightarrow> pin list \<Rightarrow> py_error + int list" where
  "int_of_pins py_int [] = Inr []"
| "int_of_pins py_int (p # ps) =
     (case int_of_pin py_int p of
        Inl e \<Rightarrow> Inl e
      | Inr i \<Rightarrow> (case int_of_pins py_int ps of Inl e \<Rightarrow> Inl e | Inr is \<Rightarrow> Inr (i # is)))"

definition filter_by_pincode ::
  "(string \<Rightarrow> int option) \<Rightarrow> row list \<Rightarrow> pin_arg \<Rightarrow> py_error + row list" where
  "filter_by_pincode py_int df pincodes =
     (let pincodes' = (case pincodes of OnePin p \<Rightarrow> [p] | ManyPins ps \<Rightarrow> ps) in
      case int_of_pins py_int pincodes' of
        Inl e \<Rightarrow> Inl e
      | Inr is \<Rightarrow> Inr (filter (\<lambda>r. pincode r \<in> set is) df))"

subsection \<open>analysis.py\<close>

record summary =
  sum_total_enrolments :: int
  sum_age_0_5 :: int
  sum_age_5_17 :: int
  sum_age_18_greater :: int
  daily_mean :: flt
  daily_median :: flt
  daily_std :: flt
  daily_min :: int
  daily_max :: int
  unique_pincodes :: nat
  range_start :: timestamp
  range_end :: timestamp
  range_days :: int

text \<open>
  \<^verbatim>\<open>ts.strftime('%Y-%m-%d')\<close>: the text is determined by the timestamp, which stands
  for it in the result; on NaT the call raises ValueError.
\<close>

definition strftime_ymd :: "timestamp option \<Rightarrow> py_error + timestamp" where
  "strftime_ymd v =
     (case v of None \<Rightarrow> Inl (ValueError ''NaTType does not support strftime'')
      | Some t \<Rightarrow> Inr t)"

definition NS_PER_DAY :: int where
  "NS_PER_DAY = 86400000000000"

text \<open>
  \<^verbatim>\<open>calculate_summary_statistics\<close>. The entries of the dictionary are evaluated in the
  order they are written, so the first exception on the way is the one raised.
\<close>

definition calculate_summary_statistics :: "row list \<Rightarrow> py_error + summary" where
  "calculate_summary_statistics df =
     (let daily = map snd (groupby_sum date total_enrolments df);
          dates = map date df in
      case py_int_of (series_min daily) of Inl e \<Rightarrow> Inl e | Inr mn \<Rightarrow>
     (case py_int_of (series_max daily) of Inl e \<Rightarrow> Inl e | Inr mx \<Rightarrow>
     (case strftime_ymd (series_min dates) of Inl e \<Rightarrow> Inl e | Inr first_day \<Rightarrow>
     (case strftime_ymd (series_max dates) of Inl e \<Rightarrow> Inl e | Inr last_day \<Rightarrow>
      Inr \<lparr>sum_total_enrolments = sum_list (map total_enrolments df),
           sum_age_0_5 = sum_list (map age_0_5 df),
           sum_age_5_17 = sum_list (map age_5_17 df),
           sum_age_18_greater = sum_list (map age_18_greater df),
           daily_mean = series_mean daily,
           daily_median = series_median daily,
           daily_std = series_std daily,
           daily_min = mn,
           daily_max = mx,
           unique_pincodes = length (remdups (map pincode df)),
           range_start = first_day,
           range_end = last_day,
           range_days = (last_day - first_day) div NS_PER_DAY\<rparr>))))"

text \<open>\<^verbatim>\<open>s.iloc[i]\<close>: a negative index counts from the end; out of range raises.\<close>

definition iloc :: "'a list \<Rightarrow> int \<Rightarrow> py_error + 'a" where
  "iloc xs i =
     (if 0 \<le> i \<and> i < int (length xs) then Inr (xs ! nat i)
      else if i < 0 \<and> - i \<le> int (length xs) then Inr (xs ! nat (int (length xs) + i))
      else Inl IndexError)"

text \<open>\<^verbatim>\<open>s.reindex(order, fill_value=v)\<close> of a grouped series.\<close>

definition reindex :: "'k list \<Rightarrow> int \<Rightarrow> ('k \<times> int) list \<Rightarrow> ('k \<times> int) list" where
  "reindex order fill_value s =
     map (\<lambda>k. (k, case map_of s k of None \<Rightarrow> fill_value | Some v \<Rightarrow> v)) order"

record temporal =
  daily_trend :: "(timestamp \<times> int) list"
  monthly_trend :: "((int \<times> int) \<times> int) list"
  dow_days :: "string list"
  dow_enrolments :: "int list"
  trend_direction :: string

text \<open>
  \<^verbatim>\<open>analyze_temporal_trends\<close>. The weekly series of the source is computed and never
  used; it is left out.
\<close>

definition analyze_temporal_trends :: "row list \<Rightarrow> py_error + temporal" where
  "analyze_temporal_trends df =
     (let daily = groupby_sum date total_enrolments df;
          monthly = groupby_sum (\<lambda>r. (year r, month r)) total_enrolments df;
          dow_order = [''Monday'', ''Tuesday'', ''Wednesday'', ''Thursday'', ''Friday'',
                       ''Saturday'', ''Sunday''];
          dow_pattern = reindex dow_order 0 (groupby_sum day_of_week total_enrolments df) in
      case iloc (map snd daily) (- 1) of Inl e \<Rightarrow> Inl e | Inr last_total \<Rightarrow>
     (case iloc (map snd daily) 0 of Inl e \<Rightarrow> Inl e | Inr first_total \<Rightarrow>
      Inr \<lparr>daily_trend = daily,
           monthly_trend = monthly,
           dow_days = map fst dow_pattern,
           dow_enrolments = map snd dow_pattern,
           trend_direction =
             (if last_total > first_total then ''increasing'' else ''decreasing'')\<rparr>))"

record pincode_group =
  g_pincode :: int
  g_total_enrolments :: int
  g_age_0_5 :: int
  g_age_5_17 :: int
  g_age_18_greater :: int

record district_group =
  g_district :: string
  g_district_total :: int
  g_unique_pincodes :: nat

record geographic =
  top_10_pincodes :: "pincode_group list"
  district_summary :: "district_group list"
  top_10_percent :: flt

definition col_sum :: "('r \<Rightarrow> 'k) \<Rightarrow> ('r \<Rightarrow> int) \<Rightarrow> 'r list \<Rightarrow> 'k \<Rightarrow> int" where
  "col_sum key col df k = sum_list (map col (filter (\<lambda>r. key r = k) df))"

text \<open>
  \<^verbatim>\<open>analyze_geographic_distribution\<close>; \<open>srt\<close> is
  \<^verbatim>\<open>sort_values('total_enrolments', ascending=False)\<close>. The quotient of two int64
  values is a float64.
\<close>

definition analyze_geographic_distribution ::
  "(pincode_group list \<Rightarrow> pincode_group list) \<Rightarrow> row list \<Rightarrow> geographic" where
  "analyze_geographic_distribution srt df =
     (let pincode_dist =
            srt (map (\<lambda>k. \<lparr>g_pincode = k,
                            g_total_enrolments = col_sum pincode total_enrolments df k,
                            g_age_0_5 = col_sum pincode age_0_5 df k,
                            g_age_5_17 = col_sum pincode age_5_17 df k,
                            g_age_18_greater = col_sum pincode age_18_greater df k\<rparr>)
                   (group_keys pincode df));
          district_dist =
            map (\<lambda>k. \<lparr>g_district = k,
                       g_district_total = col_sum district total_enrolments df k,
                       g_unique_pincodes = nunique_in district pincode df k\<rparr>)
              (group_keys district df) in
      \<lparr>top_10_pincodes = take 10 pincode_dist,
       district_summary = district_dist,
       top_10_percent =
         fmul (fdiv (Fin (real_of_int (sum_list (map g_total_enrolments (take 10 pincode_dist)))))
                    (Fin (real_of_int (sum_list (map g_total_enrolments pincode_dist)))))
              (Fin 100)\<rparr>)"

subsection \<open>anomaly_model.py\<close>

record zscore_day =
  z_date :: timestamp
  z_value :: int
  z_score :: flt
  is_anomaly :: bool
  anomaly_type :: string

text \<open>\<^verbatim>\<open>calculate_zscore_anomalies\<close>; \<open>column\<close> reads the column to analyse off a row.\<close>

definition calculate_zscore_anomalies :: "row list \<Rightarrow> (row \<Rightarrow> int) \<Rightarrow> flt \<Rightarrow> zscore_day list" where
  "calculate_zscore_anomalies df column threshold =
     (let daily = groupby_sum date column df;
          mean = series_mean (map snd daily);
          std = series_std (map snd daily) in
      map (\<lambda>(d, v).
             let z = fdiv (fsub (Fin (real_of_int v)) mean) std in
             \<lparr>z_date = d, z_value = v, z_score = z,
              is_anomaly = flt_gt (fabs z) threshold,
              anomaly_type =
                (if flt_gt z threshold then ''high''
                 else if flt_lt z (fneg threshold) then ''low'' else ''normal'')\<rparr>)
          daily)"





subsection \<open>The two orders of filtering\<close>

text \<open>
  The request layer (\<^verbatim>\<open>analyze_data\<close> in \<^verbatim>\<open>app.py\<close>) filters by date, then by
  pincode; an exception of the first filter ends the request. The other order is the same
  two calls exchanged.
\<close>

definition date_then_pincode ::
  "(string \<Rightarrow> py_error + timestamp option) \<Rightarrow> (string \<Rightarrow> int option) \<Rightarrow> row list \<Rightarrow>
   date_arg \<Rightarrow> date_arg \<Rightarrow> pin_arg \<Rightarrow> py_error + row list" where
  "date_then_pincode to_datetime py_int df start_date end_date pincodes =
     (case filter_by_date_range to_datetime df start_date end_date of
        Inl e \<Rightarrow> Inl e
      | Inr df1 \<Rightarrow> filter_by_pincode py_int df1 pincodes)"

definition pincode_then_date ::
  "(string \<Rightarrow> py_error + timestamp option) \<Rightarrow> (string \<Rightarrow> int option) \<Rightarrow> row list \<Rightarrow>
   date_arg \<Rightarrow> date_arg \<Rightarrow> pin_arg \<Rightarrow> py_error + row list" where
  "pincode_then_date to_datetime py_int df start_date end_date pincodes =
     (case filter_by_pincode py_int df pincodes of
        Inl e \<Rightarrow> Inl e
      | Inr df1 \<Rightarrow> filter_by_date_range to_datetime df1 start_date end_date)"

subsection \<open>Schema-conformant counts\<close>

text \<open>
  The age counts of every row are non-negative and \<^verbatim>\<open>total_enrolments\<close> is their sum,
  as \<^verbatim>\<open>add_derived_columns\<close> computes it.
\<close>

definition nonneg_counts :: "row list \<Rightarrow> bool" where
  "nonneg_counts df \<longleftrightarrow>
     (\<forall>r\<in>set df. 0 \<le> age_0_5 r \<and> 0 \<le> age_5_17 r \<and> 0 \<le> age_18_greater r \<and>
        total_enrolments r = age_0_5 r + age_5_17 r + age_18_greater r)"

subsection \<open>Data for the examples\<close>

text \<open>
  The examples use days of January 2024. The first of January 2024 is day 19723 after the
  epoch, a Monday, and the first day of ISO week 1.
\<close>

definition jan_2024 :: "int \<Rightarrow> timestamp" where
  "jan_2024 k = (19722 + k) * NS_PER_DAY"

definition day_names :: "string list" where
  "day_names = [''Monday'', ''Tuesday'', ''Wednesday'', ''Thursday'', ''Friday'',
                ''Saturday'', ''Sunday'']"

text \<open>The calendar fields of the timestamps of January 2024.\<close>

definition dt_jan_2024 :: "timestamp \<Rightarrow> calendar" where
  "dt_jan_2024 t =
     (let k = t div NS_PER_DAY - 19722 in
      \<lparr>dt_year = 2024, dt_month = 1, dt_month_name = ''January'', dt_day = k,
       dt_day_name = day_names ! nat ((k - 1) mod 7), dt_week = (k - 1) div 7 + 1\<rparr>)"

text \<open>The date parser on the texts of the examples; \<^verbatim>\<open>'31-02-2024'\<close> is no date.\<close>

definition strp_example :: "string \<Rightarrow> timestamp option" where
  "strp_example s =
     (if s = ''01-01-2024'' then Some (jan_2024 1)
      else if s = ''02-01-2024'' then Some (jan_2024 2)
      else None)"

definition raw_example :: "string \<Rightarrow> int \<Rightarrow> int \<Rightarrow> int \<Rightarrow> int \<Rightarrow> date_cell enrolment" where
  "raw_example d p a b c =
     \<lparr>date = DateText d, state = ''West Bengal'', district = ''Birbhum'', pincode = p,
      age_0_5 = a, age_5_17 = b, age_18_greater = c\<rparr>"

text \<open>A preprocessed row for day \<open>k\<close> of January 2024.\<close>

definition row_example :: "int \<Rightarrow> int \<Rightarrow> int \<Rightarrow> int \<Rightarrow> int \<Rightarrow> row" where
  "row_example k p a b c =
     derive_row dt_jan_2024
       \<lparr>date = jan_2024 k, state = ''West Bengal'', district = ''Birbhum'', pincode = p,
        age_0_5 = a, age_5_17 = b, age_18_greater = c\<rparr>"



text \<open>Nine days, one row each: eight days of 1 enrolment and a ninth of 10.\<close>

definition nine_days :: "row list" where
  "nine_days =
     map (\<lambda>(k, v). row_example k 700001 0 0 v)
       [(1, 1), (2, 1), (3, 1), (4, 1), (5, 1), (6, 1), (7, 1), (8, 1), (9, 10)]"

text \<open>
  The general date parser and Python's \<^verbatim>\<open>int\<close> on the texts of the examples.
\<close>

definition to_datetime_example :: "string \<Rightarrow> py_error + timestamp option" where
  "to_datetime_example s =
     (if s = ''2024-01-02'' then Inr (Some (jan_2024 2))
      else if s = ''NaT'' then Inr None
      else Inl (ParserError s))"

definition py_int_example :: "string \<Rightarrow> int option" where
  "py_int_example s = (if s = ''700001'' then Some 700001 else None)"

text \<open>
  Two instances of \<^verbatim>\<open>sort_values\<close>: a stable one, and one that sorts and leaves rows
  with equal keys in the reverse of their input order.
\<close>

definition stable_sort :: "('r \<Rightarrow> 'k::linorder) \<Rightarrow> 'r list \<Rightarrow> 'r list" where
  "stable_sort key xs = sort_key key xs"


section \<open>Properties\<close>

subsection \<open>Facts about lists and grouping\<close>

lemma sorted_hd_Min: "sorted xs \<Longrightarrow> xs \<noteq> [] \<Longrightarrow> hd xs = Min (set xs)"
  by (cases xs) (auto intro!: Min_eqI [symmetric])

lemma sorted_last_Max: "sorted xs \<Longrightarrow> xs \<noteq> [] \<Longrightarrow> last xs = Max (set xs)"
proof (induction xs)
  case Nil
  then show ?case by simp
next
  case (Cons x xs)
  show ?case
  proof (cases "xs = []")
    case True
    then show ?thesis by simp
  next
    case False
    with Cons have "last xs = Max (set xs)" by simp
    moreover have "x \<le> Max (set xs)" using Cons.prems False
      by (metis List.finite_set Max_ge_iff last_in_set set_empty sorted_simps(2))
    ultimately show ?thesis using False by (simp add: max_def)
  qed
qed

lemma sum_delta_list0:
  "k \<notin> set ks \<Longrightarrow> (\<Sum>j\<leftarrow>ks. if k = j then (c::int) else 0) = 0"
  by (induction ks) auto

lemma sum_delta_list:
  "distinct ks \<Longrightarrow> k \<in> set ks \<Longrightarrow> (\<Sum>j\<leftarrow>ks. if k = j then (c::int) else 0) = c"
  by (induction ks) (auto simp: sum_delta_list0)

lemma set_group_keys: "set (group_keys key df) = key ` set df"
  by (simp add: group_keys_def)

lemma distinct_group_keys: "distinct (group_keys key df)"
  by (simp add: group_keys_def)

lemma sorted_group_keys: "sorted (group_keys key df)"
  by (simp add: group_keys_def)

lemma group_keys_Nil: "(group_keys key df = []) = (df = [])"
  by (metis set_group_keys image_is_empty set_empty)

lemma groupby_sum_col_sum:
  "groupby_sum key col df = map (\<lambda>k. (k, col_sum key col df k)) (group_keys key df)"
  by (simp add: groupby_sum_def col_sum_def)

lemma col_sum_total:
  "distinct ks \<Longrightarrow> key ` set df \<subseteq> set ks \<Longrightarrow>
   (\<Sum>k\<leftarrow>ks. col_sum key col df k) = sum_list (map col df)"
proof (induction df)
  case Nil
  then show ?case by (simp add: col_sum_def)
next
  case (Cons r df)
  have "(\<Sum>k\<leftarrow>ks. col_sum key col (r # df) k) =
        (\<Sum>k\<leftarrow>ks. (if key r = k then col r else 0) + col_sum key col df k)"
    by (rule arg_cong [where f = sum_list]) (auto simp: col_sum_def)
  also have "\<dots> = (\<Sum>k\<leftarrow>ks. if key r = k then col r else 0) + (\<Sum>k\<leftarrow>ks. col_sum key col df k)"
    by (simp add: sum_list_addf)
  also have "\<dots> = col r + sum_list (map col df)"
    using Cons by (simp add: sum_delta_list)
  finally show ?case by simp
qed

lemma sum_list_mset_cong:
  "mset ys = mset xs \<Longrightarrow> sum_list (map f ys) = sum_list (map (f::'a \<Rightarrow> int) xs)"
  by (metis mset_map sum_mset_sum_list)

lemma iloc_first: "xs \<noteq> [] \<Longrightarrow> iloc xs 0 = Inr (hd xs)"
  by (cases xs) (simp_all add: iloc_def)

lemma iloc_last: "xs \<noteq> [] \<Longrightarrow> iloc xs (- 1) = Inr (last xs)"
proof -
  assume n: "xs \<noteq> []"
  then have "nat (int (length xs) + - 1) = length xs - 1" and "1 \<le> length xs"
    by (simp_all add: Suc_leI)
  with n show ?thesis by (simp add: iloc_def last_conv_nth)
qed

lemma stable_sort_ok: "sort_values_ok key (stable_sort key)"
  by (simp add: sort_values_ok_def stable_sort_def)


subsection \<open>Facts about derived rows\<close>

lemma derive_row_simps:
  "total_enrolments (derive_row dt r) = age_0_5 r + age_5_17 r + age_18_greater r"
  "age_0_5 (derive_row dt r) = age_0_5 r"
  "age_5_17 (derive_row dt r) = age_5_17 r"
  "age_18_greater (derive_row dt r) = age_18_greater r"
  "date (derive_row dt r) = date r"
  "pincode (derive_row dt r) = pincode r"
  by (simp_all add: derive_row_def enrolment.defs row.defs)

lemma derived_sums:
  "sum_list (map age_0_5 (add_derived_columns dt df)) +
   sum_list (map age_5_17 (add_derived_columns dt df)) +
   sum_list (map age_18_greater (add_derived_columns dt df)) =
   sum_list (map total_enrolments (add_derived_columns dt df))"
  by (induction df) (simp_all add: add_derived_columns_def derive_row_simps)

lemma summary_Inr:
  assumes "df \<noteq> []"
  shows "calculate_summary_statistics df =
     Inr \<lparr>sum_total_enrolments = sum_list (map total_enrolments df),
           sum_age_0_5 = sum_list (map age_0_5 df),
           sum_age_5_17 = sum_list (map age_5_17 df),
           sum_age_18_greater = sum_list (map age_18_greater df),
           daily_mean = series_mean (map snd (groupby_sum date total_enrolments df)),
           daily_median = series_median (map snd (groupby_sum date total_enrolments df)),
           daily_std = series_std (map snd (groupby_sum date total_enrolments df)),
           daily_min = Min (set (map snd (groupby_sum date total_enrolments df))),
           daily_max = Max (set (map snd (groupby_sum date total_enrolments df))),
           unique_pincodes = length (remdups (map pincode df)),
           range_start = Min (date ` set df),
           range_end = Max (date ` set df),
           range_days = (Max (date ` set df) - Min (date ` set df)) div NS_PER_DAY\<rparr>"
proof -
  have "groupby_sum date total_enrolments df \<noteq> []"
    using assms by (simp add: groupby_sum_col_sum group_keys_Nil)
  then show ?thesis using assms
    by (simp add: calculate_summary_statistics_def Let_def series_min_def series_max_def
        py_int_of_def strftime_ymd_def)
qed

subsection \<open>Claims\<close>

text \<open>
  C10. \<^verbatim>\<open>filter_by_age_group\<close> returns the table it is given, unchanged, for every table
  and every \<^verbatim>\<open>age_groups\<close> argument (\<^verbatim>\<open>None\<close>, empty, or any list of names): the
  requested names are checked against the valid ones and the checked list is dropped.
\<close>

theorem filter_by_age_group_identity: "filter_by_age_group df age_groups = df"
  by (simp add: filter_by_age_group_def Let_def split: option.splits)

text \<open>
  C9. \<^verbatim>\<open>validate_columns\<close> raises exactly when a required column is absent, naming the
  absent columns, and returns \<^verbatim>\<open>True\<close> exactly when all are present. \<^verbatim>\<open>load_data\<close>
  on an existing file returns the frame when all required columns are present and
  otherwise ends with that exception: no frame is returned, so nothing is preprocessed
  or analysed.
\<close>

theorem schema_validation:
  "(validate_columns columns = Inl (MissingColumns (set REQUIRED_COLUMNS - set columns)))
     = (\<not> set REQUIRED_COLUMNS \<subseteq> set columns) \<and>
   (validate_columns columns = Inr True) = (set REQUIRED_COLUMNS \<subseteq> set columns) \<and>
   (fs file_path = Some (columns, body) \<longrightarrow>
      load_data fs file_path =
        (if set REQUIRED_COLUMNS \<subseteq> set columns then Inr (columns, body)
         else Inl (MissingColumns (set REQUIRED_COLUMNS - set columns))))"
  by (auto simp: validate_columns_def load_data_def Let_def)

theorem schema_validation_witness:
  "validate_columns [''date'', ''state'', ''pincode''] =
     Inl (MissingColumns {''district'', ''age_0_5'', ''age_5_17'', ''age_18_greater''}) \<and>
   load_data [''a.csv'' \<mapsto> ([''date'', ''state'', ''pincode''], ())] ''a.csv'' =
     Inl (MissingColumns {''district'', ''age_0_5'', ''age_5_17'', ''age_18_greater''}) \<and>
   load_data [''b.csv'' \<mapsto> (REQUIRED_COLUMNS @ [''extra''], ())] ''b.csv'' =
     Inr (REQUIRED_COLUMNS @ [''extra''], ())"
  using schema_validation [of "[''date'', ''state'', ''pincode'']"
      "[''a.csv'' \<mapsto> ([''date'', ''state'', ''pincode''], ())]" "''a.csv''" "()"]
    schema_validation [of "REQUIRED_COLUMNS @ [''extra'']"
      "[''b.csv'' \<mapsto> (REQUIRED_COLUMNS @ [''extra''], ())]" "''b.csv''" "()"]
  by (auto simp: REQUIRED_COLUMNS_def)

text \<open>
  C5. In the table \<^verbatim>\<open>preprocess_data\<close> returns, the sums of the three age columns add
  up to the sum of the \<^verbatim>\<open>total_enrolments\<close> column, and so do the figures
  \<^verbatim>\<open>calculate_summary_statistics\<close> reports for it.
\<close>

theorem age_sums_equal_total:
  assumes "sort_values_ok date srt"
  shows "(let df = preprocess_data strp dt srt raw in
          sum_list (map age_0_5 df) + sum_list (map age_5_17 df) +
          sum_list (map age_18_greater df) = sum_list (map total_enrolments df) \<and>
          (\<forall>s. calculate_summary_statistics df = Inr s \<longrightarrow>
             sum_age_0_5 s + sum_age_5_17 s + sum_age_18_greater s = sum_total_enrolments s))"
proof -
  define xs where "xs = add_derived_columns dt (parse_dates strp raw)"
  have m: "mset (srt xs) = mset xs"
    using assms by (simp add: sort_values_ok_def)
  have same: "sum_list (map f (srt xs)) = sum_list (map f xs)" for f :: "row \<Rightarrow> int"
    by (rule sum_list_mset_cong [OF m])
  have "sum_list (map age_0_5 xs) + sum_list (map age_5_17 xs) +
        sum_list (map age_18_greater xs) = sum_list (map total_enrolments xs)"
    unfolding xs_def by (rule derived_sums)
  then have eq: "sum_list (map age_0_5 (srt xs)) + sum_list (map age_5_17 (srt xs)) +
        sum_list (map age_18_greater (srt xs)) = sum_list (map total_enrolments (srt xs))"
    by (simp only: same)
  have "\<forall>s. calculate_summary_statistics (srt xs) = Inr s \<longrightarrow>
          sum_age_0_5 s + sum_age_5_17 s + sum_age_18_greater s = sum_total_enrolments s"
  proof (intro allI impI)
    fix s assume s: "calculate_summary_statistics (srt xs) = Inr s"
    have "srt xs \<noteq> []"
    proof
      assume "srt xs = []"
      then have "calculate_summary_statistics (srt xs) =
                 Inl (ValueError ''cannot convert float NaN to integer'')"
        by (simp add: calculate_summary_statistics_def Let_def groupby_sum_col_sum
            group_keys_def series_min_def py_int_of_def)
      with s show False by simp
    qed
    from summary_Inr [OF this] s eq show
      "sum_age_0_5 s + sum_age_5_17 s + sum_age_18_greater s = sum_total_enrolments s"
      by auto
  qed
  with eq show ?thesis by (simp add: preprocess_data_def xs_def Let_def)
qed

theorem age_sums_equal_total_witness:
  "sort_values_ok date (stable_sort date :: row list \<Rightarrow> row list) \<and>
   (let df = preprocess_data strp_example dt_jan_2024 (stable_sort date)
               [raw_example ''02-01-2024'' 700002 1 2 3,
                raw_example ''31-02-2024'' 700001 9 9 9,
                raw_example ''01-01-2024'' 700001 2 3 5] in
    sum_list (map age_0_5 df) + sum_list (map age_5_17 df) +
    sum_list (map age_18_greater df) = sum_list (map total_enrolments df) \<and>
    sum_list (map total_enrolments df) = 16)"
proof -
  have ev: "sum_list (map total_enrolments
      (preprocess_data strp_example dt_jan_2024 (stable_sort date)
               [raw_example ''02-01-2024'' 700002 1 2 3,
                raw_example ''31-02-2024'' 700001 9 9 9,
                raw_example ''01-01-2024'' 700001 2 3 5])) = 16"
    by (simp add: preprocess_data_def parse_dates_def add_derived_columns_def
        List.map_filter_def strp_example_def raw_example_def set_date_def stable_sort_def
        derive_row_simps jan_2024_def NS_PER_DAY_def)
  show ?thesis
    using age_sums_equal_total [OF stable_sort_ok, of strp_example dt_jan_2024
               "[raw_example ''02-01-2024'' 700002 1 2 3,
                raw_example ''31-02-2024'' 700001 9 9 9,
                raw_example ''01-01-2024'' 700001 2 3 5]"] ev
    by (simp add: stable_sort_ok Let_def)
qed

text \<open>
  C8. For a non-empty table \<^verbatim>\<open>analyze_temporal_trends\<close> returns, and its trend direction
  is \<^verbatim>\<open>'increasing'\<close> exactly when the total of the latest day exceeds the total of the
  earliest day, \<^verbatim>\<open>'decreasing'\<close> otherwise (also when the two are equal).
\<close>

theorem trend_direction_two_point:
  assumes "df \<noteq> []"
  shows "\<exists>a. analyze_temporal_trends df = Inr a \<and>
    (trend_direction a = ''increasing'' \<longleftrightarrow>
       col_sum date total_enrolments df (Max (date ` set df)) >
       col_sum date total_enrolments df (Min (date ` set df))) \<and>
    (trend_direction a = ''decreasing'' \<longleftrightarrow>
       \<not> col_sum date total_enrolments df (Max (date ` set df)) >
         col_sum date total_enrolments df (Min (date ` set df)))"
proof -
  let ?ks = "group_keys date df"
  let ?vals = "map snd (groupby_sum date total_enrolments df)"
  have ks: "?ks \<noteq> []" using assms by (simp add: group_keys_Nil)
  have vals: "?vals = map (col_sum date total_enrolments df) ?ks"
    by (simp add: groupby_sum_col_sum comp_def)
  have ne: "?vals \<noteq> []" using ks by (simp add: vals)
  have l: "last ?vals = col_sum date total_enrolments df (Max (date ` set df))"
    using ks sorted_last_Max [OF sorted_group_keys ks]
    by (simp add: vals last_map set_group_keys)
  have h: "hd ?vals = col_sum date total_enrolments df (Min (date ` set df))"
    using ks sorted_hd_Min [OF sorted_group_keys ks]
    by (simp add: vals hd_map set_group_keys)
  show ?thesis
    using iloc_last [OF ne] iloc_first [OF ne] l h
    by (simp add: analyze_temporal_trends_def Let_def)
qed

theorem trend_direction_two_point_witness:
  "[row_example 1 700001 2 3 5, row_example 2 700001 1 1 1, row_example 3 700002 2 3 5] \<noteq> [] \<and>
   (\<exists>a. analyze_temporal_trends
          [row_example 1 700001 2 3 5, row_example 2 700001 1 1 1, row_example 3 700002 2 3 5]
        = Inr a \<and> trend_direction a = ''decreasing'')"
proof -
  let ?df = "[row_example 1 700001 2 3 5, row_example 2 700001 1 1 1, row_example 3 700002 2 3 5]"
  have d: "map date ?df = [jan_2024 1, jan_2024 2, jan_2024 3]"
    by (simp add: row_example_def derive_row_simps)
  have mx: "Max (date ` set ?df) = jan_2024 3" and mn: "Min (date ` set ?df) = jan_2024 1"
    using d by (simp_all add: row_example_def derive_row_simps jan_2024_def NS_PER_DAY_def)
  have "col_sum date total_enrolments ?df (jan_2024 3) = 10"
       "col_sum date total_enrolments ?df (jan_2024 1) = 10"
    by (simp_all add: col_sum_def row_example_def derive_row_simps jan_2024_def NS_PER_DAY_def)
  then show ?thesis
    using trend_direction_two_point [of ?df] mx mn by auto
qed




lemma sum_list_take_le:
  "\<forall>x\<in>set xs. (0::int) \<le> x \<Longrightarrow> sum_list (take n xs) \<le> sum_list xs"
proof -
  assume nn: "\<forall>x\<in>set xs. (0::int) \<le> x"
  have "sum_list xs = sum_list (take n xs) + sum_list (drop n xs)"
    by (metis append_take_drop_id sum_list_append)
  moreover have "0 \<le> sum_list (drop n xs)"
    using nn by (auto intro!: sum_list_nonneg dest: in_set_dropD)
  ultimately show ?thesis by simp
qed

lemma col_sum_nonneg: "\<forall>r\<in>set df. 0 \<le> col r \<Longrightarrow> 0 \<le> col_sum key col df k"
  by (auto simp: col_sum_def intro!: sum_list_nonneg)

lemma date_range_shape:
  "(\<exists>err. \<forall>df. filter_by_date_range P df s e = Inl err) \<or>
   (\<exists>pr. \<forall>df. filter_by_date_range P df s e = Inr (filter pr df))"
proof -
  have lo: "(\<exists>err. coerce_date P s = Inl err) \<or> (\<exists>t. coerce_date P s = Inr t)"
    by (cases "coerce_date P s") auto
  have hi: "(\<exists>err. coerce_date P e = Inl err) \<or> (\<exists>t. coerce_date P e = Inr t)"
    by (cases "coerce_date P e") auto
  show ?thesis
  proof (cases "truthy s")
    case True
    note ts = this
    from lo show ?thesis
    proof
      assume "\<exists>err. coerce_date P s = Inl err"
      then show ?thesis using ts by (auto simp: filter_by_date_range_def)
    next
      assume "\<exists>t. coerce_date P s = Inr t"
      then obtain a where a: "coerce_date P s = Inr a" by blast
      show ?thesis
      proof (cases "truthy e")
        case True
        from hi show ?thesis
        proof
          assume "\<exists>err. coerce_date P e = Inl err"
          then show ?thesis using ts True a by (auto simp: filter_by_date_range_def)
        next
          assume "\<exists>t. coerce_date P e = Inr t"
          then obtain b where b: "coerce_date P e = Inr b" by blast
          have "\<forall>df. filter_by_date_range P df s e =
                  Inr (filter (\<lambda>r. date_ge (date r) a \<and> date_le (date r) b) df)"
            using ts True a b by (simp add: filter_by_date_range_def conj_commute)
          then show ?thesis by blast
        qed
      next
        case False
        have "\<forall>df. filter_by_date_range P df s e = Inr (filter (\<lambda>r. date_ge (date r) a) df)"
          using ts False a by (simp add: filter_by_date_range_def)
        then show ?thesis by blast
      qed
    qed
  next
    case False
    note ts = this
    show ?thesis
    proof (cases "truthy e")
      case True
      from hi show ?thesis
      proof
        assume "\<exists>err. coerce_date P e = Inl err"
        then show ?thesis using ts True by (auto simp: filter_by_date_range_def)
      next
        assume "\<exists>t. coerce_date P e = Inr t"
        then obtain b where b: "coerce_date P e = Inr b" by blast
        have "\<forall>df. filter_by_date_range P df s e = Inr (filter (\<lambda>r. date_le (date r) b) df)"
          using ts True b by (simp add: filter_by_date_range_def)
        then show ?thesis by blast
      qed
    next
      case False
      have "\<forall>df. filter_by_date_range P df s e = Inr (filter (\<lambda>r. True) df)"
        using ts False by (simp add: filter_by_date_range_def)
      then show ?thesis by blast
    qed
  qed
qed

lemma pincode_shape:
  "(\<exists>err. \<forall>df. filter_by_pincode I df pins = Inl err) \<or>
   (\<exists>is. \<forall>df. filter_by_pincode I df pins = Inr (filter (\<lambda>r. pincode r \<in> set is) df))"
  by (cases "int_of_pins I (case pins of OnePin p \<Rightarrow> [p] | ManyPins ps \<Rightarrow> ps)")
     (auto simp: filter_by_pincode_def Let_def)

text \<open>
  C4, as the code has it. For every table with non-negative age counts whose grand total
  is positive, the concentration ratio of \<^verbatim>\<open>analyze_geographic_distribution\<close> is a
  number between 0 and 100.
\<close>

theorem concentration_ratio_in_range:
  assumes srt: "sort_values_ok (\<lambda>g. - g_total_enrolments g) srt"
    and nn: "nonneg_counts df"
    and pos: "0 < sum_list (map total_enrolments df)"
  shows "\<exists>x. top_10_percent (analyze_geographic_distribution srt df) = Fin x \<and> 0 \<le> x \<and> x \<le> 100"
proof -
  define groups where "groups =
     map (\<lambda>k. \<lparr>g_pincode = k,
                 g_total_enrolments = col_sum pincode total_enrolments df k,
                 g_age_0_5 = col_sum pincode age_0_5 df k,
                 g_age_5_17 = col_sum pincode age_5_17 df k,
                 g_age_18_greater = col_sum pincode age_18_greater df k\<rparr>)
       (group_keys pincode df)"
  define ts where "ts = map g_total_enrolments (srt groups)"
  have m: "mset (srt groups) = mset groups"
    using srt by (simp add: sort_values_ok_def)
  have tot: "map g_total_enrolments groups =
             map (col_sum pincode total_enrolments df) (group_keys pincode df)"
    by (simp add: groups_def comp_def)
  have "sum_list ts = sum_list (map g_total_enrolments groups)"
    unfolding ts_def by (rule sum_list_mset_cong [OF m])
  also have "\<dots> = sum_list (map total_enrolments df)"
    unfolding tot by (rule col_sum_total) (simp_all add: distinct_group_keys set_group_keys)
  finally have total: "sum_list ts = sum_list (map total_enrolments df)" .
  have rows: "\<forall>r\<in>set df. 0 \<le> total_enrolments r"
    using nn by (auto simp: nonneg_counts_def)
  have "set (srt groups) = set groups"
    using m by (metis set_mset_mset)
  then have each: "\<forall>t\<in>set ts. 0 \<le> t"
    using col_sum_nonneg [OF rows] by (auto simp: ts_def groups_def)
  have top_le: "sum_list (take 10 ts) \<le> sum_list ts"
    by (rule sum_list_take_le [OF each])
  have top_ge: "0 \<le> sum_list (take 10 ts)"
    using each by (auto intro!: sum_list_nonneg dest: in_set_takeD)
  let ?x = "real_of_int (sum_list (take 10 ts)) / real_of_int (sum_list ts) * 100"
  have val: "top_10_percent (analyze_geographic_distribution srt df) = Fin ?x"
    using pos total
    by (simp add: analyze_geographic_distribution_def Let_def groups_def [symmetric]
        ts_def [symmetric] take_map [symmetric])
  have "0 \<le> ?x" using top_ge pos total by simp
  moreover have "?x \<le> 100"
  proof -
    have "real_of_int (sum_list (take 10 ts)) \<le> real_of_int (sum_list ts)"
      using top_le by simp
    moreover have "0 < real_of_int (sum_list ts)" using pos total by simp
    ultimately have "real_of_int (sum_list (take 10 ts)) / real_of_int (sum_list ts) \<le> 1"
      by (simp add: divide_le_eq_1)
    then have "real_of_int (sum_list (take 10 ts)) / real_of_int (sum_list ts) * 100 \<le> 1 * 100"
      by (rule mult_right_mono) simp
    then show ?thesis by simp
  qed
  ultimately show ?thesis using val by blast
qed

theorem concentration_ratio_in_range_witness:
  "sort_values_ok (\<lambda>g. - g_total_enrolments g) (stable_sort (\<lambda>g. - g_total_enrolments g)) \<and>
   nonneg_counts [row_example 1 700001 2 3 5, row_example 1 700002 1 0 0] \<and>
   0 < sum_list (map total_enrolments [row_example 1 700001 2 3 5, row_example 1 700002 1 0 0]) \<and>
   (\<exists>x. top_10_percent
          (analyze_geographic_distribution (stable_sort (\<lambda>g. - g_total_enrolments g))
             [row_example 1 700001 2 3 5, row_example 1 700002 1 0 0]) = Fin x \<and>
        0 \<le> x \<and> x \<le> 100)"
proof -
  let ?df = "[row_example 1 700001 2 3 5, row_example 1 700002 1 0 0]"
  have a: "nonneg_counts ?df"
    by (simp add: nonneg_counts_def row_example_def derive_row_simps)
  have b: "0 < sum_list (map total_enrolments ?df)"
    by (simp add: row_example_def derive_row_simps)
  show ?thesis
    using concentration_ratio_in_range [OF stable_sort_ok a b] a b stable_sort_ok
    by blast
qed

text \<open>
  C4 as stated fails: for a non-empty table whose counts are all zero the ratio is
  \<open>0 / 0\<close>, which is NaN and no number of the interval.
\<close>

theorem concentration_ratio_zero_total:
  "[row_example 1 700001 0 0 0] \<noteq> [] \<and> nonneg_counts [row_example 1 700001 0 0 0] \<and>
   top_10_percent
     (analyze_geographic_distribution (stable_sort (\<lambda>g. - g_total_enrolments g))
        [row_example 1 700001 0 0 0]) = NaN"
  by (simp add: nonneg_counts_def analyze_geographic_distribution_def Let_def group_keys_def
      col_sum_def stable_sort_def row_example_def derive_row_simps)

lemma int_of_pins_ints: "int_of_pins I (map PinInt ps) = Inr ps"
  by (induction ps) simp_all

lemma commute_core:
  "(isl (date_then_pincode P I df s e pins) \<longleftrightarrow> isl (pincode_then_date P I df s e pins)) \<and>
   (\<forall>rows. date_then_pincode P I df s e pins = Inr rows \<longleftrightarrow>
           pincode_then_date P I df s e pins = Inr rows) \<and>
   (\<forall>rows. date_then_pincode P I df s e pins = Inr rows \<longrightarrow>
      (\<exists>d p. filter_by_date_range P df s e = Inr d \<and> filter_by_pincode I df pins = Inr p \<and>
             rows = filter (\<lambda>r. r \<in> set d \<and> r \<in> set p) df))"
proof -
  from date_range_shape [of P s e] pincode_shape [of I pins] show ?thesis
  proof (elim disjE exE)
    fix e1 e2
    assume "\<forall>df. filter_by_date_range P df s e = Inl e1"
       and "\<forall>df. filter_by_pincode I df pins = Inl e2"
    then show ?thesis by (simp add: date_then_pincode_def pincode_then_date_def)
  next
    fix e1 "is"
    assume "\<forall>df. filter_by_date_range P df s e = Inl e1"
       and "\<forall>df. filter_by_pincode I df pins = Inr (filter (\<lambda>r. pincode r \<in> set is) df)"
    then show ?thesis by (simp add: date_then_pincode_def pincode_then_date_def)
  next
    fix pr e2
    assume "\<forall>df. filter_by_date_range P df s e = Inr (filter pr df)"
       and "\<forall>df. filter_by_pincode I df pins = Inl e2"
    then show ?thesis by (simp add: date_then_pincode_def pincode_then_date_def)
  next
    fix pr "is"
    assume d: "\<forall>df. filter_by_date_range P df s e = Inr (filter pr df)"
       and p: "\<forall>df. filter_by_pincode I df pins = Inr (filter (\<lambda>r. pincode r \<in> set is) df)"
    have "filter (\<lambda>r. r \<in> set (filter pr df) \<and> r \<in> set (filter (\<lambda>r. pincode r \<in> set is) df)) df
          = filter (\<lambda>r. pincode r \<in> set is \<and> pr r) df"
      by (rule filter_cong) auto
    then show ?thesis using d p
      by (auto simp: date_then_pincode_def pincode_then_date_def conj_commute)
  qed
qed

text \<open>
  C7. The two filters commute. In either order the composition raises or returns
  together, and what it returns is the same: the rows of the table that are in the
  result of \<^verbatim>\<open>filter_by_date_range\<close> and in the result of \<^verbatim>\<open>filter_by_pincode\<close>, in
  table order. (When both arguments are ill-formed, each order raises the exception of
  the filter it calls first.) The bounds of the date filter are inclusive and an omitted
  bound leaves that side open; the pincode filter keeps the rows whose pincode is among
  the given ones, so that it depends on the set of the codes only. The input table is
  not modified: both filters build new frames, which is why they are functions here.
\<close>

theorem filters_commute:
  "(isl (date_then_pincode P I df s e pins) \<longleftrightarrow> isl (pincode_then_date P I df s e pins)) \<and>
   (\<forall>rows. date_then_pincode P I df s e pins = Inr rows \<longleftrightarrow>
           pincode_then_date P I df s e pins = Inr rows) \<and>
   (\<forall>rows. date_then_pincode P I df s e pins = Inr rows \<longrightarrow>
      (\<exists>d p. filter_by_date_range P df s e = Inr d \<and> filter_by_pincode I df pins = Inr p \<and>
             rows = filter (\<lambda>r. r \<in> set d \<and> r \<in> set p) df)) \<and>
   filter_by_date_range P df (DateVal a) (DateVal b) =
     Inr (filter (\<lambda>r. a \<le> date r \<and> date r \<le> b) df) \<and>
   filter_by_date_range P df (DateVal a) NoDate = Inr (filter (\<lambda>r. a \<le> date r) df) \<and>
   filter_by_date_range P df NoDate (DateVal b) = Inr (filter (\<lambda>r. date r \<le> b) df) \<and>
   filter_by_date_range P df NoDate NoDate = Inr df \<and>
   filter_by_pincode I df (ManyPins (map PinInt ps)) = Inr (filter (\<lambda>r. pincode r \<in> set ps) df) \<and>
   filter_by_pincode I df (OnePin (PinInt p)) = Inr (filter (\<lambda>r. pincode r = p) df)"
proof -
  have bounds:
    "filter_by_date_range P df (DateVal a) (DateVal b) =
       Inr (filter (\<lambda>r. a \<le> date r \<and> date r \<le> b) df)"
    "filter_by_date_range P df (DateVal a) NoDate = Inr (filter (\<lambda>r. a \<le> date r) df)"
    "filter_by_date_range P df NoDate (DateVal b) = Inr (filter (\<lambda>r. date r \<le> b) df)"
    "filter_by_date_range P df NoDate NoDate = Inr df"
    by (simp_all add: filter_by_date_range_def date_ge_def date_le_def conj_commute)
  have pins:
    "filter_by_pincode I df (ManyPins (map PinInt ps)) = Inr (filter (\<lambda>r. pincode r \<in> set ps) df)"
    "filter_by_pincode I df (OnePin (PinInt p)) = Inr (filter (\<lambda>r. pincode r = p) df)"
    by (simp_all add: filter_by_pincode_def int_of_pins_ints)
  from commute_core [of P I df s e pins] bounds pins show ?thesis by blast
qed

theorem filters_commute_witness:
  "date_then_pincode to_datetime_example py_int_example
     [row_example 1 700001 2 3 5, row_example 2 700001 1 1 1, row_example 3 700002 2 3 5]
     (DateStr ''2024-01-02'') NoDate (ManyPins [PinStr ''700001'', PinInt 700001])
     = Inr [row_example 2 700001 1 1 1] \<and>
   pincode_then_date to_datetime_example py_int_example
     [row_example 1 700001 2 3 5, row_example 2 700001 1 1 1, row_example 3 700002 2 3 5]
     (DateStr ''2024-01-02'') NoDate (ManyPins [PinStr ''700001'', PinInt 700001])
     = Inr [row_example 2 700001 1 1 1]"
proof -
  have "date_then_pincode to_datetime_example py_int_example
     [row_example 1 700001 2 3 5, row_example 2 700001 1 1 1, row_example 3 700002 2 3 5]
     (DateStr ''2024-01-02'') NoDate (ManyPins [PinStr ''700001'', PinInt 700001])
     = Inr [row_example 2 700001 1 1 1]"
    by (simp add: date_then_pincode_def filter_by_date_range_def filter_by_pincode_def
        to_datetime_example_def py_int_example_def date_ge_def row_example_def
        derive_row_simps jan_2024_def NS_PER_DAY_def)
  then show ?thesis
    using filters_commute [of to_datetime_example py_int_example
        "[row_example 1 700001 2 3 5, row_example 2 700001 1 1 1, row_example 3 700002 2 3 5]"
        "DateStr ''2024-01-02''" NoDate "ManyPins [PinStr ''700001'', PinInt 700001]"]
    by blast
qed






lemma zscore_row:
  "calculate_zscore_anomalies df column threshold =
   map (\<lambda>(d, v).
          \<lparr>z_date = d, z_value = v,
           z_score = fdiv (fsub (Fin (real_of_int v)) (series_mean (map snd (groupby_sum date column df))))
                          (series_std (map snd (groupby_sum date column df))),
           is_anomaly = flt_gt (fabs (fdiv (fsub (Fin (real_of_int v)) (series_mean (map snd (groupby_sum date column df))))
                          (series_std (map snd (groupby_sum date column df))))) threshold,
           anomaly_type =
             (if flt_gt (fdiv (fsub (Fin (real_of_int v)) (series_mean (map snd (groupby_sum date column df))))
                          (series_std (map snd (groupby_sum date column df)))) threshold then ''high''
              else if flt_lt (fdiv (fsub (Fin (real_of_int v)) (series_mean (map snd (groupby_sum date column df))))
                          (series_std (map snd (groupby_sum date column df)))) (fneg threshold) then ''low''
              else ''normal'')\<rparr>)
     (groupby_sum date column df)"
  by (simp add: calculate_zscore_anomalies_def Let_def)




text \<open>
  An example with a flagged day: eight days of 1 and one of 10 have mean 2 and sample
  standard deviation 3, so the last day has z-score 8/3, above 2.5, and the others -1/3.
\<close>

lemma sqrt_nine: "sqrt 9 = 3"
proof -
  have "sqrt (3\<^sup>2) = 3" by simp
  then show ?thesis by simp
qed

lemma nine_days_groups:
  "groupby_sum date total_enrolments nine_days =
     [(jan_2024 1, 1), (jan_2024 2, 1), (jan_2024 3, 1), (jan_2024 4, 1), (jan_2024 5, 1),
      (jan_2024 6, 1), (jan_2024 7, 1), (jan_2024 8, 1), (jan_2024 9, 10)]"
  by (simp add: nine_days_def groupby_sum_def group_keys_def row_example_def derive_row_simps
      jan_2024_def NS_PER_DAY_def)

lemma nine_days_stats:
  "series_mean [1, 1, 1, 1, 1, 1, 1, 1, 10] = Fin 2"
  "series_std [1, 1, 1, 1, 1, 1, 1, 1, 10] = Fin 3"
  by (simp_all add: series_mean_def series_std_def mean_real_def sq_dev_def sqrt_nine)

lemma zscore_spike_flagged:
  "map (\<lambda>r. (z_value r, is_anomaly r, anomaly_type r))
     (calculate_zscore_anomalies nine_days total_enrolments (Fin (5 / 2))) =
   [(1, False, ''normal''), (1, False, ''normal''), (1, False, ''normal''),
    (1, False, ''normal''), (1, False, ''normal''), (1, False, ''normal''),
    (1, False, ''normal''), (1, False, ''normal''), (10, True, ''high'')]"
  by (simp add: zscore_row nine_days_groups nine_days_stats flt_lt_def)























end
